theory Spec2Isabelle
  imports Main "HOL-Library.Word" "HOL-Library.Monad_Syntax"
begin

unbundle bit_operations_syntax

section \<open>Data model (pkg/ecdsa/tss)\<close>

text \<open>
  Go's \<open>[]byte\<close> is a list of 8-bit words; a \<open>MemberID\<close> is a byte slice. Go's
  \<open>int\<close> and \<open>uint\<close> are taken at their 64-bit width (amd64, arm64): both are
  \<open>64 word\<close>, read with \<open>sint\<close> and \<open>unat\<close> respectively. A \<open>time.Duration\<close> is a
  number of nanoseconds. A \<open>*big.Int\<close> is an unbounded integer.
\<close>

type_synonym bytes = "8 word list"
type_synonym MemberID = bytes
type_synonym Duration = int

definition Second :: Duration where
  "Second = 1000000000"

text \<open>The struct \<open>groupInfo\<close>, as \<open>GenerateThresholdSigner\<close> fills it.\<close>

record groupInfo =
  groupID :: string
  memberID :: MemberID
  groupMemberIDs :: "MemberID list"
  dishonestThreshold :: "64 word"

text \<open>
  The key material of tss-lib, with the fields that \<open>ThresholdKey.Marshal\<close> and
  \<open>ThresholdKey.Unmarshal\<close> read and write. The type \<open>'pt\<close> stands for
  \<open>crypto.ECPoint\<close>, whose fields are private to tss-lib.
\<close>

record PublicKey =
  N :: int

record PrivateKey =
  PublicKey :: PublicKey
  LambdaN :: int
  PhiN :: int

record LocalPreParams =
  PaillierSK :: PrivateKey
  NTildei :: int
  H1i :: int
  H2i :: int

record LocalSecrets =
  Xi :: int
  ShareID :: int

record 'pt ThresholdKey =
  LocalPreParams :: LocalPreParams
  LocalSecrets :: LocalSecrets
  Ks :: "int list"
  NTildej :: "int list"
  H1j :: "int list"
  H2j :: "int list"
  BigXj :: "'pt list"
  PaillierPKs :: "PublicKey list"
  ECDSAPub :: 'pt

record 'pt ThresholdSigner =
  groupInfo :: groupInfo
  thresholdKey :: "'pt ThresholdKey"

text \<open>
  Every \<open>fmt.Errorf\<close> of tss.go and marshaling.go is a constructor, applied to what
  its message is formatted from; an error made by code outside the two files (the rest of
  the package, tss-lib, the generated protobuf code) is \<open>External\<close> with its message.
  \<^item> \<open>InvalidGroupSize n\<close>: "group should have at least 2 members but got: [n]";
  \<^item> \<open>ThresholdTooLarge n t\<close>: "group size [n], should be greater than dishonest
    threshold [t]";
  \<^item> \<open>FailedToInitializeNetworkBridge\<close>: "failed to initialize network bridge: [err]";
  \<^item> \<open>FailedToJoinProtocol\<close>: "failed to join the protocol: [err]";
  \<^item> \<open>FailedToGenerateKey\<close>: "failed to generate key: [err]";
  \<^item> \<open>FailedToInitializeSigning\<close>: "failed to initialize signing: [err]";
  \<^item> \<open>FailedToSign\<close>: "failed to sign: [err]";
  \<^item> \<open>FailedToConvertLocalPartySaveData\<close>: "failed to convert local party save
    data: [err]";
  \<^item> \<open>FailedToUnmarshalSigner\<close>: "failed to unmarshal signer: [err]";
  \<^item> \<open>FailedToEncodeBigXj\<close>, \<open>FailedToEncodeECDSAPub\<close>, \<open>FailedToDecodeBigXj\<close>,
    \<open>FailedToDecodeECDSAPub\<close>: "failed to encode BigXj: [err]" and so on.
\<close>

datatype error =
    InvalidGroupSize nat
  | ThresholdTooLarge nat "64 word"
  | FailedToInitializeNetworkBridge error
  | FailedToJoinProtocol error
  | FailedToGenerateKey error
  | FailedToInitializeSigning error
  | FailedToSign error
  | FailedToConvertLocalPartySaveData error
  | FailedToUnmarshalSigner error
  | FailedToEncodeBigXj error
  | FailedToEncodeECDSAPub error
  | FailedToDecodeBigXj error
  | FailedToDecodeECDSAPub error
  | External string

section \<open>Key generation and signing (tss.go)\<close>

text \<open>
  The \<open>const\<close> block of tss.go. The two timeouts are the fields of a record that the
  functions take as an argument, so that a statement can tell which of the two a function
  reads; \<open>timeouts\<close> holds the values of the source.
\<close>

record timeouts_block =
  keyGenerationTimeout :: Duration
  signingTimeout :: Duration

definition timeouts :: timeouts_block where
  "timeouts = \<lparr>keyGenerationTimeout = 120 * Second, signingTimeout = 120 * Second\<rparr>"

text \<open>
  What a call does besides returning: the calls it makes into the rest of the package, in
  order. \<open>NewNetworkBridge\<close> and \<open>JoinProtocol\<close> are the two calls that receive the
  network provider.
\<close>

datatype event =
    Warningf string
  | Infof string
  | NewNetworkBridge groupInfo
  | WithTimeout Duration
  | Cancel
  | InitializeKeyGeneration
  | JoinProtocol
  | GenerateKey
  | InitializeSigning bytes
  | Sign

text \<open>
  The functions of the package that tss.go calls and that are defined in other files:
  each is a field of \<open>env\<close>, a function of the arguments it is called with; the
  error such a function returns is made outside tss.go and is represented by its message.
  A \<open>context.Context\<close> made by \<open>context.WithTimeout\<close> is represented by its
  timeout. \<open>'n\<close> is \<open>net.Provider\<close>, \<open>'b\<close> the network bridge, \<open>'k\<close> and
  \<open>'s\<close> the key-generation and signing signers, \<open>'g\<close> \<open>ecdsa.Signature\<close>.
\<close>

record ('n, 'b, 'k, 's, 'g, 'pt) env =
  newNetworkBridge :: "groupInfo \<Rightarrow> 'n \<Rightarrow> string + 'b"
  initializeKeyGeneration ::
    "Duration \<Rightarrow> groupInfo \<Rightarrow> LocalPreParams option \<Rightarrow> 'b \<Rightarrow> string + 'k"
  joinProtocol :: "Duration \<Rightarrow> groupInfo \<Rightarrow> 'n \<Rightarrow> string option"
  generateKey :: "'k \<Rightarrow> Duration \<Rightarrow> string + 'pt ThresholdSigner"
  initializeSigning :: "'pt ThresholdSigner \<Rightarrow> Duration \<Rightarrow> bytes \<Rightarrow> 'b \<Rightarrow> string + 's"
  sign :: "'s \<Rightarrow> Duration \<Rightarrow> string + 'g"

text \<open>
  The conversion \<open>int(dishonestThreshold)\<close> from \<open>uint\<close> keeps the 64 bits; the result
  is read as a signed number.
\<close>

definition int_of_uint :: "64 word \<Rightarrow> 64 word" where
  "int_of_uint u = u"

text \<open>
  \<open>GenerateThresholdSigner\<close> (tss.go, lines 42 to 113) returns the signer or the error,
  together with the calls it made. \<open>defer cancel()\<close> runs at every return that follows
  \<open>context.WithTimeout\<close>.
\<close>

definition GenerateThresholdSigner ::
  "timeouts_block \<Rightarrow> ('n, 'b, 'k, 's, 'g, 'pt) env \<Rightarrow> string \<Rightarrow> MemberID \<Rightarrow> MemberID list \<Rightarrow>
   64 word \<Rightarrow> 'n \<Rightarrow> LocalPreParams option \<Rightarrow> (error + 'pt ThresholdSigner) \<times> event list"
where
  "GenerateThresholdSigner c e gid mid ids dishonest networkProvider tssPreParams =
    (if length ids < 2 then (Inl (InvalidGroupSize (length ids)), [])
     else if int (length ids) \<le> sint (int_of_uint dishonest)
       then (Inl (ThresholdTooLarge (length ids) dishonest), [])
     else
       (let group = \<lparr>groupID = gid, memberID = mid, groupMemberIDs = ids,
                     dishonestThreshold = int_of_uint dishonest\<rparr>;
            t0 = (if tssPreParams = None
                  then [Warningf ''tss pre-params were not provided, they will be generated on protocol execution'']
                  else [])
        in (case newNetworkBridge e group networkProvider of
          Inl err \<Rightarrow> (Inl (FailedToInitializeNetworkBridge (External err)), t0 @ [NewNetworkBridge group])
        | Inr netBridge \<Rightarrow>
           (let ctx = keyGenerationTimeout c;
                t1 = t0 @ [NewNetworkBridge group, WithTimeout ctx]
            in (case initializeKeyGeneration e ctx group tssPreParams netBridge of
              Inl err \<Rightarrow> (Inl (External err), t1 @ [InitializeKeyGeneration, Cancel])
            | Inr keyGenSigner \<Rightarrow>
               (let t2 = t1 @ [InitializeKeyGeneration, Infof ''initialized key generation'']
                in (case joinProtocol e ctx group networkProvider of
                  Some err \<Rightarrow> (Inl (FailedToJoinProtocol (External err)), t2 @ [JoinProtocol, Cancel])
                | None \<Rightarrow>
                   (let t3 = t2 @ [JoinProtocol, Infof ''starting key generation'']
                    in (case generateKey e keyGenSigner ctx of
                      Inl err \<Rightarrow> (Inl (FailedToGenerateKey (External err)), t3 @ [GenerateKey, Cancel])
                    | Inr signer \<Rightarrow>
                        (Inr signer,
                         t3 @ [GenerateKey, Infof ''completed key generation'', Cancel]))))))))))"

text \<open>\<open>ThresholdSigner.CalculateSignature\<close> (tss.go, lines 118 to 145).\<close>

definition CalculateSignature ::
  "timeouts_block \<Rightarrow> ('n, 'b, 'k, 's, 'g, 'pt) env \<Rightarrow> 'pt ThresholdSigner \<Rightarrow> bytes \<Rightarrow> 'n \<Rightarrow>
   (error + 'g) \<times> event list"
where
  "CalculateSignature c e s digest networkProvider =
    (case newNetworkBridge e (groupInfo s) networkProvider of
       Inl err \<Rightarrow> (Inl (FailedToInitializeNetworkBridge (External err)), [NewNetworkBridge (groupInfo s)])
     | Inr netBridge \<Rightarrow>
        (let ctx = keyGenerationTimeout c;
             t1 = [NewNetworkBridge (groupInfo s), WithTimeout ctx]
         in (case initializeSigning e s ctx digest netBridge of
           Inl err \<Rightarrow>
             (Inl (FailedToInitializeSigning (External err)), t1 @ [InitializeSigning digest, Cancel])
         | Inr signingSigner \<Rightarrow>
            (let t2 = t1 @ [InitializeSigning digest]
             in (case joinProtocol e ctx (groupInfo s) networkProvider of
               Some err \<Rightarrow> (Inl (FailedToJoinProtocol (External err)), t2 @ [JoinProtocol, Cancel])
             | None \<Rightarrow>
                (case sign e signingSigner ctx of
                   Inl err \<Rightarrow> (Inl (FailedToSign (External err)), t2 @ [JoinProtocol, Sign, Cancel])
                 | Inr signature \<Rightarrow> (Inr signature, t2 @ [JoinProtocol, Sign, Cancel])))))))"

section \<open>Marshaling (marshaling.go)\<close>

subsection \<open>math/big\<close>

text \<open>
  \<open>(*big.Int).Bytes\<close> returns the absolute value as a big-endian byte slice with no
  leading zero byte, which for zero is the empty slice; \<open>(*big.Int).SetBytes\<close> reads a
  byte slice as a big-endian unsigned integer.
\<close>

fun nat_bytes :: "nat \<Rightarrow> bytes" where
  "nat_bytes n = (if n = 0 then [] else nat_bytes (n div 256) @ [word_of_nat (n mod 256)])"

declare nat_bytes.simps [simp del]

definition Bytes :: "int \<Rightarrow> bytes" where
  "Bytes x = nat_bytes (nat \<bar>x\<bar>)"

definition SetBytes :: "bytes \<Rightarrow> int" where
  "SetBytes buf = foldl (\<lambda>acc b. acc * 256 + uint b) 0 buf"

subsection \<open>The generated protobuf structs and the code outside the package\<close>

text \<open>
  The structs of the generated package \<open>gen/pb\<close>, with the fields that marshaling.go
  sets and reads (a \<open>pb_\<close> prefix keeps them apart from the fields of the key). A
  message-valued field is a pointer in Go; marshaling.go always sets it when encoding and
  reads it through the nil-safe getters when decoding, so it is a plain field here.
\<close>

record pb_LocalPartySaveData_LocalPreParams_PrivateKey =
  pb_PublicKey :: bytes
  pb_LambdaN :: bytes
  pb_PhiN :: bytes

record pb_LocalPartySaveData_LocalPreParams =
  pb_PaillierSK :: pb_LocalPartySaveData_LocalPreParams_PrivateKey
  pb_NTilde :: bytes
  pb_H1I :: bytes
  pb_H2I :: bytes

record pb_LocalPartySaveData_LocalSecrets =
  pb_Xi :: bytes
  pb_ShareID :: bytes

record pb_LocalPartySaveData =
  pb_LocalPreParams :: pb_LocalPartySaveData_LocalPreParams
  pb_LocalSecrets :: pb_LocalPartySaveData_LocalSecrets
  pb_Ks :: "bytes list"
  pb_NTildej :: "bytes list"
  pb_H1J :: "bytes list"
  pb_H2J :: "bytes list"
  pb_BigXj :: "bytes list"
  pb_PaillierPKs :: "bytes list"
  pb_EcdsaPub :: bytes

record pb_ThresholdSigner_GroupInfo =
  pb_GroupID :: string
  pb_MemberID :: bytes
  pb_GroupMemberIDs :: "bytes list"
  pb_DishonestThreshold :: "32 word"

record pb_ThresholdSigner =
  pb_GroupInfo :: pb_ThresholdSigner_GroupInfo
  pb_ThresholdKey :: bytes

record pb_TSSProtocolMessage =
  pb_SenderID :: bytes
  pb_Payload :: bytes
  pb_IsBroadcast :: bool

text \<open>
  Modelled from the spec: the generated protobuf code (\<open>gen/pb\<close>: \<open>Marshal\<close> and
  \<open>Unmarshal\<close> of each message) is not among the sources, and
  \<open>ECPoint.GobEncode\<close>/\<open>GobDecode\<close> belong to tss-lib. They are the fields of
  \<open>codec\<close>, each returning bytes or the message of its error. The spec calls the
  encoding "deterministic, lossless": \<open>pb_lossless\<close> says that a message that was
  encoded decodes to itself, \<open>gob_lossless\<close> the same of one curve point
  (\<open>GobDecode\<close> rejects a point that is not on the curve, so this is said point by
  point).
\<close>

record 'pt codec =
  Marshal_ThresholdSigner :: "pb_ThresholdSigner \<Rightarrow> string + bytes"
  Unmarshal_ThresholdSigner :: "bytes \<Rightarrow> string + pb_ThresholdSigner"
  Marshal_LocalPartySaveData :: "pb_LocalPartySaveData \<Rightarrow> string + bytes"
  Unmarshal_LocalPartySaveData :: "bytes \<Rightarrow> string + pb_LocalPartySaveData"
  Marshal_TSSProtocolMessage :: "pb_TSSProtocolMessage \<Rightarrow> string + bytes"
  Unmarshal_TSSProtocolMessage :: "bytes \<Rightarrow> string + pb_TSSProtocolMessage"
  GobEncode :: "'pt \<Rightarrow> string + bytes"
  GobDecode :: "bytes \<Rightarrow> string + 'pt"

definition pb_lossless :: "'pt codec \<Rightarrow> bool" where
  "pb_lossless cd \<longleftrightarrow>
     (\<forall>m b. Marshal_ThresholdSigner cd m = Inr b \<longrightarrow> Unmarshal_ThresholdSigner cd b = Inr m) \<and>
     (\<forall>m b. Marshal_LocalPartySaveData cd m = Inr b \<longrightarrow>
        Unmarshal_LocalPartySaveData cd b = Inr m) \<and>
     (\<forall>m b. Marshal_TSSProtocolMessage cd m = Inr b \<longrightarrow>
        Unmarshal_TSSProtocolMessage cd b = Inr m)"

definition gob_lossless :: "'pt codec \<Rightarrow> 'pt \<Rightarrow> bool" where
  "gob_lossless cd p \<longleftrightarrow> (\<forall>b. GobEncode cd p = Inr b \<longrightarrow> GobDecode cd b = Inr p)"

subsection \<open>ThresholdKey\<close>

definition marshalBigIntSlice :: "int list \<Rightarrow> bytes list" where
  "marshalBigIntSlice bigInts = map Bytes bigInts"

definition unmarshalBigIntSlice :: "bytes list \<Rightarrow> int list" where
  "unmarshalBigIntSlice bytesSlice = map SetBytes bytesSlice"

text \<open>The loop over \<open>tk.BigXj\<close> of \<open>Marshal\<close>: it returns at the first point that fails.\<close>

fun encodeBigXj :: "'pt codec \<Rightarrow> 'pt list \<Rightarrow> error + bytes list" where
  "encodeBigXj cd [] = Inr []"
| "encodeBigXj cd (bigX # rest) =
     (case GobEncode cd bigX of
        Inl err \<Rightarrow> Inl (FailedToEncodeBigXj (External err))
      | Inr encoded \<Rightarrow>
          (case encodeBigXj cd rest of
             Inl err \<Rightarrow> Inl err
           | Inr bigXj \<Rightarrow> Inr (encoded # bigXj)))"

text \<open>The loop over \<open>pbData.GetBigXj()\<close> of \<open>Unmarshal\<close>.\<close>

fun decodeBigXj :: "'pt codec \<Rightarrow> bytes list \<Rightarrow> error + 'pt list" where
  "decodeBigXj cd [] = Inr []"
| "decodeBigXj cd (bigX # rest) =
     (case GobDecode cd bigX of
        Inl err \<Rightarrow> Inl (FailedToDecodeBigXj (External err))
      | Inr p \<Rightarrow>
          (case decodeBigXj cd rest of
             Inl err \<Rightarrow> Inl err
           | Inr ps \<Rightarrow> Inr (p # ps)))"

text \<open>
  \<open>ThresholdKey.Marshal\<close> in two steps: \<open>saveData\<close> is the \<open>pb.LocalPartySaveData\<close>
  that it builds (or the error of a \<open>GobEncode\<close>), and \<open>ThresholdKey_Marshal\<close> hands it
  to the generated \<open>Marshal\<close>.
\<close>

definition saveData :: "'pt codec \<Rightarrow> 'pt ThresholdKey \<Rightarrow> error + pb_LocalPartySaveData" where
  "saveData cd tk =
    (let localPreParams =
           \<lparr>pb_PaillierSK =
              \<lparr>pb_PublicKey = Bytes (N (PublicKey (PaillierSK (LocalPreParams tk)))),
               pb_LambdaN = Bytes (LambdaN (PaillierSK (LocalPreParams tk))),
               pb_PhiN = Bytes (PhiN (PaillierSK (LocalPreParams tk)))\<rparr>,
            pb_NTilde = Bytes (NTildei (LocalPreParams tk)),
            pb_H1I = Bytes (H1i (LocalPreParams tk)),
            pb_H2I = Bytes (H2i (LocalPreParams tk))\<rparr>;
         localSecrets =
           \<lparr>pb_Xi = Bytes (Xi (LocalSecrets tk)), pb_ShareID = Bytes (ShareID (LocalSecrets tk))\<rparr>
     in (case encodeBigXj cd (BigXj tk) of
       Inl err \<Rightarrow> Inl err
     | Inr bigXj \<Rightarrow>
        (let paillierPKs = map (\<lambda>paillierPK. Bytes (N paillierPK)) (PaillierPKs tk)
         in (case GobEncode cd (ECDSAPub tk) of
           Inl err \<Rightarrow> Inl (FailedToEncodeECDSAPub (External err))
         | Inr ecdsaPub \<Rightarrow>
             Inr \<lparr>pb_LocalPreParams = localPreParams,
                  pb_LocalSecrets = localSecrets,
                  pb_Ks = marshalBigIntSlice (Ks tk),
                  pb_NTildej = marshalBigIntSlice (NTildej tk),
                  pb_H1J = marshalBigIntSlice (H1j tk),
                  pb_H2J = marshalBigIntSlice (H2j tk),
                  pb_BigXj = bigXj,
                  pb_PaillierPKs = paillierPKs,
                  pb_EcdsaPub = ecdsaPub\<rparr>))))"

definition ThresholdKey_Marshal :: "'pt codec \<Rightarrow> 'pt ThresholdKey \<Rightarrow> error + bytes" where
  "ThresholdKey_Marshal cd tk =
    (case saveData cd tk of
       Inl err \<Rightarrow> Inl err
     | Inr pbData \<Rightarrow>
        (case Marshal_LocalPartySaveData cd pbData of
           Inl err \<Rightarrow> Inl (External err)
         | Inr bytes \<Rightarrow> Inr bytes))"

text \<open>
  \<open>ThresholdKey.Unmarshal\<close>, likewise: \<open>fromSaveData\<close> is what it does with the decoded
  \<open>pbData\<close>. The result is the key that the receiver holds when \<open>Unmarshal\<close> returns
  nil; the partly written receiver of a failed call is not represented.
\<close>

definition fromSaveData :: "'pt codec \<Rightarrow> pb_LocalPartySaveData \<Rightarrow> error + 'pt ThresholdKey" where
  "fromSaveData cd pbData =
    (let paillierSK =
           \<lparr>PublicKey = \<lparr>N = SetBytes (pb_PublicKey (pb_PaillierSK (pb_LocalPreParams pbData)))\<rparr>,
            LambdaN = SetBytes (pb_LambdaN (pb_PaillierSK (pb_LocalPreParams pbData))),
            PhiN = SetBytes (pb_PhiN (pb_PaillierSK (pb_LocalPreParams pbData)))\<rparr>;
         localPreParams =
           \<lparr>PaillierSK = paillierSK,
            NTildei = SetBytes (pb_NTilde (pb_LocalPreParams pbData)),
            H1i = SetBytes (pb_H1I (pb_LocalPreParams pbData)),
            H2i = SetBytes (pb_H2I (pb_LocalPreParams pbData))\<rparr>;
         localSecrets =
           \<lparr>Xi = SetBytes (pb_Xi (pb_LocalSecrets pbData)),
            ShareID = SetBytes (pb_ShareID (pb_LocalSecrets pbData))\<rparr>
     in (case decodeBigXj cd (pb_BigXj pbData) of
       Inl err \<Rightarrow> Inl err
     | Inr bigXj \<Rightarrow>
        (let paillierPKs = map (\<lambda>paillierPK. \<lparr>N = SetBytes paillierPK\<rparr>) (pb_PaillierPKs pbData)
         in (case GobDecode cd (pb_EcdsaPub pbData) of
           Inl err \<Rightarrow> Inl (FailedToDecodeECDSAPub (External err))
         | Inr ecdsaPub \<Rightarrow>
             Inr \<lparr>LocalPreParams = localPreParams,
                  LocalSecrets = localSecrets,
                  Ks = unmarshalBigIntSlice (pb_Ks pbData),
                  NTildej = unmarshalBigIntSlice (pb_NTildej pbData),
                  H1j = unmarshalBigIntSlice (pb_H1J pbData),
                  H2j = unmarshalBigIntSlice (pb_H2J pbData),
                  BigXj = bigXj,
                  PaillierPKs = paillierPKs,
                  ECDSAPub = ecdsaPub\<rparr>))))"

definition ThresholdKey_Unmarshal :: "'pt codec \<Rightarrow> bytes \<Rightarrow> error + 'pt ThresholdKey" where
  "ThresholdKey_Unmarshal cd bytes =
    (case Unmarshal_LocalPartySaveData cd bytes of
       Inl err \<Rightarrow> Inl (FailedToUnmarshalSigner (External err))
     | Inr pbData \<Rightarrow> fromSaveData cd pbData)"

subsection \<open>ThresholdSigner\<close>

text \<open>
  \<open>int32(s.dishonestThreshold)\<close> keeps the low 32 bits of the \<open>int\<close>;
  \<open>int(pbGroupInfo.GetDishonestThreshold())\<close> extends the sign of the \<open>int32\<close>.
\<close>

definition int32_of_int :: "64 word \<Rightarrow> 32 word" where
  "int32_of_int x = ucast x"

definition int_of_int32 :: "32 word \<Rightarrow> 64 word" where
  "int_of_int32 x = scast x"

definition ThresholdSigner_Marshal :: "'pt codec \<Rightarrow> 'pt ThresholdSigner \<Rightarrow> error + bytes" where
  "ThresholdSigner_Marshal cd s =
    (case ThresholdKey_Marshal cd (thresholdKey s) of
       Inl err \<Rightarrow> Inl (FailedToConvertLocalPartySaveData err)
     | Inr keygenData \<Rightarrow>
        (let ids = map (\<lambda>memberID. memberID) (groupMemberIDs (groupInfo s));
             group = \<lparr>pb_GroupID = groupID (groupInfo s),
                      pb_MemberID = memberID (groupInfo s),
                      pb_GroupMemberIDs = ids,
                      pb_DishonestThreshold = int32_of_int (dishonestThreshold (groupInfo s))\<rparr>
         in (case Marshal_ThresholdSigner cd \<lparr>pb_GroupInfo = group, pb_ThresholdKey = keygenData\<rparr> of
           Inl err \<Rightarrow> Inl (External err)
         | Inr bytes \<Rightarrow> Inr bytes)))"

text \<open>
  \<open>ThresholdSigner.Unmarshal\<close>: the result is the signer that the receiver holds when
  it returns nil.
\<close>

definition ThresholdSigner_Unmarshal :: "'pt codec \<Rightarrow> bytes \<Rightarrow> error + 'pt ThresholdSigner" where
  "ThresholdSigner_Unmarshal cd bytes =
    (case Unmarshal_ThresholdSigner cd bytes of
       Inl err \<Rightarrow> Inl (FailedToUnmarshalSigner (External err))
     | Inr pbSigner \<Rightarrow>
        (case ThresholdKey_Unmarshal cd (pb_ThresholdKey pbSigner) of
           Inl err \<Rightarrow> Inl (FailedToUnmarshalSigner err)
         | Inr tk \<Rightarrow>
            (let pbGroupInfo = pb_GroupInfo pbSigner;
                 ids = map (\<lambda>memberID. memberID) (pb_GroupMemberIDs pbGroupInfo)
             in Inr \<lparr>groupInfo =
                       \<lparr>groupID = pb_GroupID pbGroupInfo,
                        memberID = pb_MemberID pbGroupInfo,
                        groupMemberIDs = ids,
                        dishonestThreshold = int_of_int32 (pb_DishonestThreshold pbGroupInfo)\<rparr>,
                     thresholdKey = tk\<rparr>)))"

subsection \<open>TSSProtocolMessage\<close>

record TSSProtocolMessage =
  SenderID :: MemberID
  Payload :: bytes
  IsBroadcast :: bool

definition TSSProtocolMessage_Marshal :: "'pt codec \<Rightarrow> TSSProtocolMessage \<Rightarrow> error + bytes" where
  "TSSProtocolMessage_Marshal cd m =
    (case Marshal_TSSProtocolMessage cd
            \<lparr>pb_SenderID = SenderID m, pb_Payload = Payload m, pb_IsBroadcast = IsBroadcast m\<rparr> of
       Inl err \<Rightarrow> Inl (External err)
     | Inr bytes \<Rightarrow> Inr bytes)"

text \<open>
  \<open>TSSProtocolMessage.Unmarshal\<close> assigns the three fields of the receiver \<open>m\<close>, or
  returns the error and leaves \<open>m\<close> as it was.
\<close>

definition TSSProtocolMessage_Unmarshal ::
  "'pt codec \<Rightarrow> TSSProtocolMessage \<Rightarrow> bytes \<Rightarrow> error option \<times> TSSProtocolMessage" where
  "TSSProtocolMessage_Unmarshal cd m bytes =
    (case Unmarshal_TSSProtocolMessage cd bytes of
       Inl err \<Rightarrow> (Some (External err), m)
     | Inr pbMsg \<Rightarrow>
         (None, m\<lparr>SenderID := pb_SenderID pbMsg, Payload := pb_Payload pbMsg,
                  IsBroadcast := pb_IsBroadcast pbMsg\<rparr>))"

subsection \<open>Encoding followed by decoding, and the values the claims are about\<close>

definition decode_encode :: "'pt codec \<Rightarrow> 'pt ThresholdSigner \<Rightarrow> error + 'pt ThresholdSigner" where
  "decode_encode cd s =
    (case ThresholdSigner_Marshal cd s of
       Inl err \<Rightarrow> Inl err
     | Inr bytes \<Rightarrow> ThresholdSigner_Unmarshal cd bytes)"

text \<open>
  The invariant that the spec gives for a group: at least two members, and a threshold
  \<open>t\<close> with \<open>0 \<le> t < len(group_member_ids)\<close>.
\<close>

definition group_valid :: "groupInfo \<Rightarrow> bool" where
  "group_valid g \<longleftrightarrow>
     2 \<le> length (groupMemberIDs g) \<and> 0 \<le> sint (dishonestThreshold g) \<and>
     sint (dishonestThreshold g) < int (length (groupMemberIDs g))"

text \<open>Key material holds no negative number: moduli, residues and shares.\<close>

definition key_nonnegative :: "'pt ThresholdKey \<Rightarrow> bool" where
  "key_nonnegative tk \<longleftrightarrow>
     0 \<le> N (PublicKey (PaillierSK (LocalPreParams tk))) \<and>
     0 \<le> LambdaN (PaillierSK (LocalPreParams tk)) \<and>
     0 \<le> PhiN (PaillierSK (LocalPreParams tk)) \<and>
     0 \<le> NTildei (LocalPreParams tk) \<and> 0 \<le> H1i (LocalPreParams tk) \<and>
     0 \<le> H2i (LocalPreParams tk) \<and>
     0 \<le> Xi (LocalSecrets tk) \<and> 0 \<le> ShareID (LocalSecrets tk) \<and>
     list_all (\<lambda>x. 0 \<le> x) (Ks tk) \<and> list_all (\<lambda>x. 0 \<le> x) (NTildej tk) \<and>
     list_all (\<lambda>x. 0 \<le> x) (H1j tk) \<and> list_all (\<lambda>x. 0 \<le> x) (H2j tk) \<and>
     list_all (\<lambda>pk. 0 \<le> N pk) (PaillierPKs tk)"

definition points_lossless :: "'pt codec \<Rightarrow> 'pt ThresholdKey \<Rightarrow> bool" where
  "points_lossless cd tk \<longleftrightarrow> list_all (gob_lossless cd) (BigXj tk) \<and> gob_lossless cd (ECDSAPub tk)"

definition valid_signer :: "'pt codec \<Rightarrow> 'pt ThresholdSigner \<Rightarrow> bool" where
  "valid_signer cd s \<longleftrightarrow>
     group_valid (groupInfo s) \<and> key_nonnegative (thresholdKey s) \<and>
     points_lossless cd (thresholdKey s)"

definition fits_int32 :: "64 word \<Rightarrow> bool" where
  "fits_int32 x \<longleftrightarrow> - (2 ^ 31) \<le> sint x \<and> sint x < 2 ^ 31"

text \<open>
  A byte string \<open>b\<close> is the shortest big-endian form of the magnitude of \<open>x\<close>: empty
  exactly for zero, without a leading zero byte, and read back as \<open>\<bar>x\<bar>\<close>.
\<close>

definition minimal_big_endian :: "int \<Rightarrow> bytes \<Rightarrow> bool" where
  "minimal_big_endian x b \<longleftrightarrow> (b = [] \<longleftrightarrow> x = 0) \<and> (b \<noteq> [] \<longrightarrow> hd b \<noteq> 0) \<and> SetBytes b = \<bar>x\<bar>"

section \<open>A reference codec and example values\<close>

text \<open>
  An instance of \<open>codec\<close> that meets \<open>pb_lossless\<close>, for the statements below that
  are made at concrete values: every byte string is written after its length (in unary,
  ended by a zero byte), a list after its number of items, the threshold as four bytes,
  the flag as one. It stands in for the generated code only in those statements.
\<close>

definition put_len :: "nat \<Rightarrow> bytes" where
  "put_len n = replicate n 1 @ [0]"

fun get_len :: "bytes \<Rightarrow> (nat \<times> bytes) option" where
  "get_len [] = None"
| "get_len (b # bs) =
     (if b = 0 then Some (0, bs)
      else if b = 1 then (case get_len bs of None \<Rightarrow> None | Some (n, r) \<Rightarrow> Some (Suc n, r))
      else None)"

definition put_bytes :: "bytes \<Rightarrow> bytes" where
  "put_bytes b = put_len (length b) @ b"

definition get_bytes :: "bytes \<Rightarrow> (bytes \<times> bytes) option" where
  "get_bytes bs =
     (case get_len bs of
        None \<Rightarrow> None
      | Some (n, r) \<Rightarrow> if n \<le> length r then Some (take n r, drop n r) else None)"

fun get_items :: "nat \<Rightarrow> bytes \<Rightarrow> (bytes list \<times> bytes) option" where
  "get_items 0 bs = Some ([], bs)"
| "get_items (Suc n) bs =
     (case get_bytes bs of
        None \<Rightarrow> None
      | Some (b, r) \<Rightarrow> (case get_items n r of None \<Rightarrow> None | Some (xs, r') \<Rightarrow> Some (b # xs, r')))"

definition put_list :: "bytes list \<Rightarrow> bytes" where
  "put_list xs = put_len (length xs) @ concat (map put_bytes xs)"

definition get_list :: "bytes \<Rightarrow> (bytes list \<times> bytes) option" where
  "get_list bs = (case get_len bs of None \<Rightarrow> None | Some (n, r) \<Rightarrow> get_items n r)"

definition put_int32 :: "32 word \<Rightarrow> bytes" where
  "put_int32 w = [ucast (drop_bit 24 w), ucast (drop_bit 16 w), ucast (drop_bit 8 w), ucast w]"

fun get_int32 :: "bytes \<Rightarrow> (32 word \<times> bytes) option" where
  "get_int32 (a # b # c # d # r) =
     Some (push_bit 24 (ucast a) OR push_bit 16 (ucast b) OR push_bit 8 (ucast c) OR ucast d, r)"
| "get_int32 _ = None"

definition put_string :: "string \<Rightarrow> bytes" where
  "put_string s = put_bytes (map (\<lambda>c. word_of_nat (of_char c)) s)"

definition get_string :: "bytes \<Rightarrow> (string \<times> bytes) option" where
  "get_string bs =
     (case get_bytes bs of None \<Rightarrow> None | Some (b, r) \<Rightarrow> Some (map (\<lambda>w. char_of (unat w)) b, r))"

definition put_bool :: "bool \<Rightarrow> bytes" where
  "put_bool f = [if f then 1 else 0]"

fun get_bool :: "bytes \<Rightarrow> (bool \<times> bytes) option" where
  "get_bool [] = None"
| "get_bool (b # r) = (if b = 0 then Some (False, r) else if b = 1 then Some (True, r) else None)"

definition the_message :: "'a option \<Rightarrow> string + 'a" where
  "the_message r = (case r of None \<Rightarrow> Inl ''malformed message'' | Some m \<Rightarrow> Inr m)"

definition put_TSSProtocolMessage :: "pb_TSSProtocolMessage \<Rightarrow> bytes" where
  "put_TSSProtocolMessage m =
     put_bytes (pb_SenderID m) @ put_bytes (pb_Payload m) @ put_bool (pb_IsBroadcast m)"

definition get_TSSProtocolMessage :: "bytes \<Rightarrow> pb_TSSProtocolMessage option" where
  "get_TSSProtocolMessage bs = do {
     (sender, r1) \<leftarrow> get_bytes bs;
     (payload, r2) \<leftarrow> get_bytes r1;
     (flag, r3) \<leftarrow> get_bool r2;
     if r3 = [] then Some \<lparr>pb_SenderID = sender, pb_Payload = payload, pb_IsBroadcast = flag\<rparr>
     else None
   }"

definition put_ThresholdSigner :: "pb_ThresholdSigner \<Rightarrow> bytes" where
  "put_ThresholdSigner m =
     put_string (pb_GroupID (pb_GroupInfo m)) @ put_bytes (pb_MemberID (pb_GroupInfo m)) @
     put_list (pb_GroupMemberIDs (pb_GroupInfo m)) @
     put_int32 (pb_DishonestThreshold (pb_GroupInfo m)) @ put_bytes (pb_ThresholdKey m)"

definition get_ThresholdSigner :: "bytes \<Rightarrow> pb_ThresholdSigner option" where
  "get_ThresholdSigner bs = do {
     (gid, r1) \<leftarrow> get_string bs;
     (mid, r2) \<leftarrow> get_bytes r1;
     (ids, r3) \<leftarrow> get_list r2;
     (t, r4) \<leftarrow> get_int32 r3;
     (key, r5) \<leftarrow> get_bytes r4;
     if r5 = []
     then Some \<lparr>pb_GroupInfo = \<lparr>pb_GroupID = gid, pb_MemberID = mid, pb_GroupMemberIDs = ids,
                                 pb_DishonestThreshold = t\<rparr>,
                pb_ThresholdKey = key\<rparr>
     else None
   }"

definition put_LocalPartySaveData :: "pb_LocalPartySaveData \<Rightarrow> bytes" where
  "put_LocalPartySaveData m =
     put_bytes (pb_PublicKey (pb_PaillierSK (pb_LocalPreParams m))) @
     put_bytes (pb_LambdaN (pb_PaillierSK (pb_LocalPreParams m))) @
     put_bytes (pb_PhiN (pb_PaillierSK (pb_LocalPreParams m))) @
     put_bytes (pb_NTilde (pb_LocalPreParams m)) @
     put_bytes (pb_H1I (pb_LocalPreParams m)) @
     put_bytes (pb_H2I (pb_LocalPreParams m)) @
     put_bytes (pb_Xi (pb_LocalSecrets m)) @
     put_bytes (pb_ShareID (pb_LocalSecrets m)) @
     put_list (pb_Ks m) @ put_list (pb_NTildej m) @ put_list (pb_H1J m) @ put_list (pb_H2J m) @
     put_list (pb_BigXj m) @ put_list (pb_PaillierPKs m) @ put_bytes (pb_EcdsaPub m)"

definition get_LocalPartySaveData :: "bytes \<Rightarrow> pb_LocalPartySaveData option" where
  "get_LocalPartySaveData bs = do {
     (pk, r1) \<leftarrow> get_bytes bs;
     (lambdaN, r2) \<leftarrow> get_bytes r1;
     (phiN, r3) \<leftarrow> get_bytes r2;
     (nTilde, r4) \<leftarrow> get_bytes r3;
     (h1, r5) \<leftarrow> get_bytes r4;
     (h2, r6) \<leftarrow> get_bytes r5;
     (xi, r7) \<leftarrow> get_bytes r6;
     (shareID, r8) \<leftarrow> get_bytes r7;
     (ks, r9) \<leftarrow> get_list r8;
     (nTildej, r10) \<leftarrow> get_list r9;
     (h1j, r11) \<leftarrow> get_list r10;
     (h2j, r12) \<leftarrow> get_list r11;
     (bigXj, r13) \<leftarrow> get_list r12;
     (pks, r14) \<leftarrow> get_list r13;
     (pub, r15) \<leftarrow> get_bytes r14;
     if r15 = []
     then Some \<lparr>pb_LocalPreParams =
                  \<lparr>pb_PaillierSK = \<lparr>pb_PublicKey = pk, pb_LambdaN = lambdaN, pb_PhiN = phiN\<rparr>,
                   pb_NTilde = nTilde, pb_H1I = h1, pb_H2I = h2\<rparr>,
                pb_LocalSecrets = \<lparr>pb_Xi = xi, pb_ShareID = shareID\<rparr>,
                pb_Ks = ks, pb_NTildej = nTildej, pb_H1J = h1j, pb_H2J = h2j,
                pb_BigXj = bigXj, pb_PaillierPKs = pks, pb_EcdsaPub = pub\<rparr>
     else None
   }"

text \<open>A curve point is a pair of coordinates here, each written as a byte string.\<close>

definition put_point :: "nat \<times> nat \<Rightarrow> bytes" where
  "put_point p = put_bytes (Bytes (int (fst p))) @ put_bytes (Bytes (int (snd p)))"

definition get_point :: "bytes \<Rightarrow> (nat \<times> nat) option" where
  "get_point bs = do {
     (x, r1) \<leftarrow> get_bytes bs;
     (y, r2) \<leftarrow> get_bytes r1;
     if r2 = [] then Some (nat (SetBytes x), nat (SetBytes y)) else None
   }"

definition wire :: "(nat \<times> nat) codec" where
  "wire =
     \<lparr>Marshal_ThresholdSigner = (\<lambda>m. Inr (put_ThresholdSigner m)),
      Unmarshal_ThresholdSigner = (\<lambda>b. the_message (get_ThresholdSigner b)),
      Marshal_LocalPartySaveData = (\<lambda>m. Inr (put_LocalPartySaveData m)),
      Unmarshal_LocalPartySaveData = (\<lambda>b. the_message (get_LocalPartySaveData b)),
      Marshal_TSSProtocolMessage = (\<lambda>m. Inr (put_TSSProtocolMessage m)),
      Unmarshal_TSSProtocolMessage = (\<lambda>b. the_message (get_TSSProtocolMessage b)),
      GobEncode = (\<lambda>p. Inr (put_point p)),
      GobDecode = (\<lambda>b. the_message (get_point b))\<rparr>"

text \<open>A key with a zero-valued secret share, and a group of three with threshold 1.\<close>

definition key0 :: "(nat \<times> nat) ThresholdKey" where
  "key0 =
     \<lparr>LocalPreParams =
        \<lparr>PaillierSK = \<lparr>PublicKey = \<lparr>N = 323\<rparr>, LambdaN = 144, PhiN = 288\<rparr>,
         NTildei = 65537, H1i = 4, H2i = 9\<rparr>,
      LocalSecrets = \<lparr>Xi = 0, ShareID = 1\<rparr>,
      Ks = [1, 2, 3], NTildej = [65537, 256, 0], H1j = [4, 5, 6], H2j = [9, 8, 7],
      BigXj = [(1, 2), (0, 7), (300, 0)],
      PaillierPKs = [\<lparr>N = 323\<rparr>, \<lparr>N = 391\<rparr>, \<lparr>N = 437\<rparr>],
      ECDSAPub = (5, 1)\<rparr>"

definition group0 :: groupInfo where
  "group0 = \<lparr>groupID = ''keep-1'', memberID = [1], groupMemberIDs = [[1], [2], [3]],
             dishonestThreshold = 1\<rparr>"

definition signer0 :: "(nat \<times> nat) ThresholdSigner" where
  "signer0 = \<lparr>groupInfo = group0, thresholdKey = key0\<rparr>"

definition message0 :: TSSProtocolMessage where
  "message0 = \<lparr>SenderID = [1], Payload = [10, 20, 30], IsBroadcast = True\<rparr>"

text \<open>
  A signer that meets the invariant of the data model (\<open>0 \<le> t < len(group_member_ids)\<close>)
  with a threshold of \<open>2^31\<close>, and what \<open>Unmarshal\<close> returns for its encoding.
\<close>

definition signer_wide :: "(nat \<times> nat) ThresholdSigner" where
  "signer_wide =
     \<lparr>groupInfo = \<lparr>groupID = ''keep-1'', memberID = [1],
                   groupMemberIDs = replicate (2 ^ 31 + 1) [1],
                   dishonestThreshold = 2 ^ 31\<rparr>,
      thresholdKey = key0\<rparr>"

definition signer_wide_decoded :: "(nat \<times> nat) ThresholdSigner" where
  "signer_wide_decoded =
     \<lparr>groupInfo = \<lparr>groupID = ''keep-1'', memberID = [1],
                   groupMemberIDs = replicate (2 ^ 31 + 1) [1],
                   dishonestThreshold = - (2 ^ 31)\<rparr>,
      thresholdKey = key0\<rparr>"

text \<open>
  Modelled from the spec: \<open>newNetworkBridge\<close>, \<open>initializeKeyGeneration\<close>,
  \<open>joinProtocol\<close>, \<open>generateKey\<close>, \<open>initializeSigning\<close> and \<open>sign\<close> are not among
  the sources. In \<open>env0\<close> each of them succeeds, except that \<open>initializeSigning\<close> does
  what the spec says of a digest: one whose length is not the 32 bytes of the curve's hash
  is rejected as \<open>InvalidDigestLength\<close>. In \<open>env_down\<close> the bridge cannot be made.
\<close>

definition env0 :: "(unit, unit, groupInfo, bytes, int \<times> int, nat \<times> nat) env" where
  "env0 =
     \<lparr>newNetworkBridge = (\<lambda>group provider. Inr ()),
      initializeKeyGeneration = (\<lambda>ctx group preParams netBridge. Inr group),
      joinProtocol = (\<lambda>ctx group provider. None),
      generateKey = (\<lambda>keyGenSigner ctx. Inr \<lparr>groupInfo = keyGenSigner, thresholdKey = key0\<rparr>),
      initializeSigning =
        (\<lambda>s ctx digest netBridge.
           if length digest = 32 then Inr digest else Inl ''InvalidDigestLength''),
      sign = (\<lambda>signingSigner ctx. Inr (1, 1))\<rparr>"


section \<open>Group validation in GenerateThresholdSigner\<close>

text \<open>
  Claim C2. Whenever \<open>groupMemberIDs\<close> has fewer than two entries,
  \<open>GenerateThresholdSigner\<close> returns the group-size error and no signer, whatever the
  other arguments are, and it has called nothing before returning.
\<close>

theorem C2_group_too_small:
  "length ids < 2 \<Longrightarrow>
   GenerateThresholdSigner c e gid mid ids dishonest networkProvider tssPreParams =
     (Inl (InvalidGroupSize (length ids)), [])"
  by (simp add: GenerateThresholdSigner_def)

theorem C2_group_too_small_witness:
  "length [[1 :: 8 word]] < 2 \<and>
   GenerateThresholdSigner timeouts env0 ''keep-1'' [1] [[1]] 0 () None =
     (Inl (InvalidGroupSize 1), [])"
  using C2_group_too_small [of "[[1]]" timeouts env0 "''keep-1''" "[1]" 0 "()" None] by simp

text \<open>
  The threshold check compares the group size with \<open>int(dishonestThreshold)\<close>. For a
  threshold below \<open>2^63\<close> the conversion keeps the value, and a threshold that is not
  below the group size is rejected.
\<close>

lemma ThresholdTooLarge_below_2_63:
  assumes "2 \<le> length ids" and "int (length ids) \<le> uint dishonest" and "uint dishonest < 2 ^ 63"
  shows "GenerateThresholdSigner c e gid mid ids dishonest networkProvider tssPreParams =
     (Inl (ThresholdTooLarge (length ids) dishonest), [])"
proof -
  have "- (2 ^ 63) \<le> uint dishonest"
    by (rule order_trans [of _ 0]) simp_all
  then have "signed_take_bit 63 (uint dishonest) = uint dishonest"
    using assms(3) by (rule signed_take_bit_int_eq_self)
  moreover have "sint dishonest = signed_take_bit 63 (uint dishonest)"
    by (simp add: sint_uint)
  ultimately have "sint dishonest = uint dishonest"
    by (simp only:)
  then have "int (length ids) \<le> sint (int_of_uint dishonest)"
    using assms(2) by (simp add: int_of_uint_def)
  then show ?thesis using assms(1) by (simp add: GenerateThresholdSigner_def)
qed

text \<open>The example of the spec: three members, threshold 3 is rejected, threshold 2 is not.\<close>

lemma three_members_threshold_3_and_2:
  "fst (GenerateThresholdSigner c e gid mid [a, b, d] 3 np pp) = Inl (ThresholdTooLarge 3 3) \<and>
   (\<forall>t. fst (GenerateThresholdSigner c e gid mid [a, b, d] 2 np pp) \<noteq> Inl (ThresholdTooLarge 3 t))"
  by (simp add: GenerateThresholdSigner_def int_of_uint_def Let_def split: sum.splits option.splits)

text \<open>
  Claim C3. The claim is that every threshold that is not below the group size is
  rejected. From \<open>2^63\<close> on, \<open>int(dishonestThreshold)\<close> is negative, the comparison
  \<open>len(groupMemberIDs) <= int(dishonestThreshold)\<close> is false, and the call goes on:
  with three members and a threshold of \<open>2^63\<close> it builds the group, creates the
  bridge and returns a signer.
\<close>

theorem C3_threshold_wraps:
  "GenerateThresholdSigner timeouts env0 ''keep-1'' [1] [[1], [2], [3]] (2 ^ 63) () None =
     (Inr \<lparr>groupInfo = \<lparr>groupID = ''keep-1'', memberID = [1], groupMemberIDs = [[1], [2], [3]],
                         dishonestThreshold = 2 ^ 63\<rparr>,
           thresholdKey = key0\<rparr>,
      [Warningf ''tss pre-params were not provided, they will be generated on protocol execution'',
       NewNetworkBridge \<lparr>groupID = ''keep-1'', memberID = [1], groupMemberIDs = [[1], [2], [3]],
                         dishonestThreshold = 2 ^ 63\<rparr>,
       WithTimeout 120000000000, InitializeKeyGeneration, Infof ''initialized key generation'',
       JoinProtocol, Infof ''starting key generation'', GenerateKey,
       Infof ''completed key generation'', Cancel])"
  by (simp add: GenerateThresholdSigner_def env0_def timeouts_def Second_def int_of_uint_def Let_def)

text \<open>
  Claim C5. If \<open>GenerateThresholdSigner\<close> returns one of the two configuration errors,
  it has made no call at all before returning: neither \<open>newNetworkBridge\<close> nor
  \<open>joinProtocol\<close>, the two calls that are handed the network provider, has run.
\<close>

theorem C5_config_error_before_network:
  "fst (GenerateThresholdSigner c e gid mid ids dishonest networkProvider tssPreParams) =
     Inl (InvalidGroupSize n) \<or>
   fst (GenerateThresholdSigner c e gid mid ids dishonest networkProvider tssPreParams) =
     Inl (ThresholdTooLarge n t) \<Longrightarrow>
   snd (GenerateThresholdSigner c e gid mid ids dishonest networkProvider tssPreParams) = []"
  by (auto simp add: GenerateThresholdSigner_def Let_def split: if_splits sum.splits option.splits)

theorem C5_config_error_before_network_witness:
  "fst (GenerateThresholdSigner timeouts env0 ''keep-1'' [1] [[1], [2], [3]] 3 () None) =
     Inl (ThresholdTooLarge 3 3) \<and>
   snd (GenerateThresholdSigner timeouts env0 ''keep-1'' [1] [[1], [2], [3]] 3 () None) = []"
proof -
  have h: "fst (GenerateThresholdSigner timeouts env0 ''keep-1'' [1] [[1], [2], [3]] 3 () None) =
     Inl (ThresholdTooLarge 3 3)"
    by (simp add: GenerateThresholdSigner_def int_of_uint_def)
  show ?thesis
    using h C5_config_error_before_network
      [of timeouts env0 "''keep-1''" "[1]" "[[1], [2], [3]]" 3 "()" None 3 3, OF disjI2, OF h]
    by simp
qed

text \<open>
  The two configuration errors come from the two checks and from nowhere else: an error of
  a later call is wrapped, or is an error made outside tss.go.
\<close>

lemma config_errors_are_the_validation:
  "(\<exists>n. fst (GenerateThresholdSigner c e gid mid ids dishonest np pp) = Inl (InvalidGroupSize n)) \<longleftrightarrow>
     length ids < 2"
  "(\<exists>n t. fst (GenerateThresholdSigner c e gid mid ids dishonest np pp) = Inl (ThresholdTooLarge n t)) \<longleftrightarrow>
     2 \<le> length ids \<and> int (length ids) \<le> sint (int_of_uint dishonest)"
  by (auto simp add: GenerateThresholdSigner_def Let_def split: if_splits sum.splits option.splits)

section \<open>Missing pre-parameters\<close>

text \<open>
  Claim C8. For a group that passes the validation, a call with nil pre-parameters logs
  the warning and goes on to create the network bridge; if the calls that follow succeed
  on the nil pre-parameters, the call returns the signer they produce; and if the call
  fails, its error is the error of one of those calls (the bridge, the initialization,
  the join protocol or the key generation), never one about the pre-parameters.
\<close>

theorem C8_nil_pre_params_proceed:
  assumes "2 \<le> length ids" and "\<not> int (length ids) \<le> sint (int_of_uint dishonest)"
  shows "(\<exists>rest. snd (GenerateThresholdSigner c e gid mid ids dishonest np None) =
            Warningf ''tss pre-params were not provided, they will be generated on protocol execution'' #
            NewNetworkBridge \<lparr>groupID = gid, memberID = mid, groupMemberIDs = ids,
                              dishonestThreshold = int_of_uint dishonest\<rparr> # rest) \<and>
         (\<forall>netBridge keyGenSigner signer.
            newNetworkBridge e \<lparr>groupID = gid, memberID = mid, groupMemberIDs = ids,
                                dishonestThreshold = int_of_uint dishonest\<rparr> np = Inr netBridge \<longrightarrow>
            initializeKeyGeneration e (keyGenerationTimeout c)
               \<lparr>groupID = gid, memberID = mid, groupMemberIDs = ids,
                dishonestThreshold = int_of_uint dishonest\<rparr> None netBridge = Inr keyGenSigner \<longrightarrow>
            joinProtocol e (keyGenerationTimeout c)
               \<lparr>groupID = gid, memberID = mid, groupMemberIDs = ids,
                dishonestThreshold = int_of_uint dishonest\<rparr> np = None \<longrightarrow>
            generateKey e keyGenSigner (keyGenerationTimeout c) = Inr signer \<longrightarrow>
            fst (GenerateThresholdSigner c e gid mid ids dishonest np None) = Inr signer) \<and>
         (\<forall>err. fst (GenerateThresholdSigner c e gid mid ids dishonest np None) = Inl err \<longrightarrow>
            (\<exists>msg. err = FailedToInitializeNetworkBridge (External msg) \<or> err = External msg \<or>
                   err = FailedToJoinProtocol (External msg) \<or>
                   err = FailedToGenerateKey (External msg)))"
  using assms
  by (auto simp add: GenerateThresholdSigner_def Let_def split: sum.splits option.splits)

theorem C8_nil_pre_params_proceed_witness:
  "2 \<le> length [[1 :: 8 word], [2], [3]] \<and>
   \<not> int (length [[1 :: 8 word], [2], [3]]) \<le> sint (int_of_uint 1) \<and>
   fst (GenerateThresholdSigner timeouts env0 ''keep-1'' [1] [[1], [2], [3]] 1 () None) =
     Inr signer0"
proof -
  have h1: "2 \<le> length [[1 :: 8 word], [2], [3]]" by simp
  have h2: "\<not> int (length [[1 :: 8 word], [2], [3]]) \<le> sint (int_of_uint 1)"
    by (simp add: int_of_uint_def)
  from C8_nil_pre_params_proceed [OF h1 h2, of timeouts env0 "''keep-1''" "[1]" "()"]
  have "fst (GenerateThresholdSigner timeouts env0 ''keep-1'' [1] [[1], [2], [3]] 1 () None) =
     Inr signer0"
    by (simp add: env0_def signer0_def group0_def int_of_uint_def)
  with h1 h2 show ?thesis by blast
qed

section \<open>CalculateSignature\<close>





text \<open>
  \<open>signingTimeout\<close> is read nowhere in \<open>CalculateSignature\<close>; the deadline is
  \<open>keyGenerationTimeout\<close>, which in the source has the same value, 120 seconds.
\<close>

lemma CalculateSignature_ignores_signingTimeout:
  "CalculateSignature (c\<lparr>signingTimeout := d\<rparr>) e s digest np = CalculateSignature c e s digest np"
  by (simp add: CalculateSignature_def Let_def split: sum.splits)

lemma CalculateSignature_deadline:
  "newNetworkBridge e (groupInfo s) np = Inr b \<Longrightarrow>
   snd (CalculateSignature c e s digest np) ! 1 = WithTimeout (keyGenerationTimeout c)"
  by (simp add: CalculateSignature_def Let_def split: sum.splits option.splits)

lemma timeouts_of_the_source:
  "keyGenerationTimeout timeouts = 120 * Second \<and> signingTimeout timeouts = 120 * Second"
  by (simp add: timeouts_def)

section \<open>math/big: Bytes and SetBytes\<close>

text \<open>
  Reading back what \<open>Bytes\<close> wrote gives the magnitude: the sign is not encoded.
\<close>

lemma uint_byte_of_nat: "uint (word_of_nat (n mod 256) :: 8 word) = int (n mod 256)"
proof -
  have "unat (word_of_nat (n mod 256) :: 8 word) = n mod 256"
    by (simp add: unat_of_nat)
  then show ?thesis
    by (metis uint_nat)
qed

lemma SetBytes_append: "SetBytes (bs @ [b]) = SetBytes bs * 256 + uint b"
  by (simp add: SetBytes_def)

lemma SetBytes_nat_bytes: "SetBytes (nat_bytes n) = int n"
proof (induction n rule: nat_bytes.induct)
  case (1 n)
  show ?case
  proof (cases "n = 0")
    case True
    then show ?thesis by (simp add: nat_bytes.simps SetBytes_def)
  next
    case False
    have "nat_bytes n = nat_bytes (n div 256) @ [word_of_nat (n mod 256)]"
      using False by (subst nat_bytes.simps) simp
    then have "SetBytes (nat_bytes n) = int (n div 256) * 256 + int (n mod 256)"
      using 1 False by (simp add: SetBytes_append uint_byte_of_nat)
    also have "\<dots> = int n"
      by (simp add: zdiv_int zmod_int)
    finally show ?thesis .
  qed
qed

lemma SetBytes_Bytes_abs: "SetBytes (Bytes x) = \<bar>x\<bar>"
  by (simp add: Bytes_def SetBytes_nat_bytes)

lemma SetBytes_Bytes: "0 \<le> x \<Longrightarrow> SetBytes (Bytes x) = x"
  by (simp add: SetBytes_Bytes_abs)

text \<open>
  \<open>Bytes\<close> writes nothing for zero and never starts with a zero byte.
\<close>

lemma nat_bytes_Nil_iff: "nat_bytes n = [] \<longleftrightarrow> n = 0"
  by (subst nat_bytes.simps) simp

lemma Bytes_Nil_iff: "Bytes x = [] \<longleftrightarrow> x = 0"
  by (simp add: Bytes_def nat_bytes_Nil_iff)

lemma byte_of_small_nat_nonzero:
  assumes "0 < k" and "k < 256"
  shows "(word_of_nat k :: 8 word) \<noteq> 0"
proof
  assume "(word_of_nat k :: 8 word) = 0"
  then have "unat (word_of_nat k :: 8 word) = 0" by simp
  then have "k mod 256 = 0" by (simp add: unat_of_nat)
  with assms show False by simp
qed

lemma hd_nat_bytes: "0 < n \<Longrightarrow> hd (nat_bytes n) \<noteq> 0"
proof (induction n rule: nat_bytes.induct)
  case (1 n)
  have eq: "nat_bytes n = nat_bytes (n div 256) @ [word_of_nat (n mod 256)]"
    using 1(2) by (subst nat_bytes.simps) simp
  show ?case
  proof (cases "n div 256 = 0")
    case True
    then have "n < 256" by (simp add: div_eq_0_iff)
    then have "(word_of_nat (n mod 256) :: 8 word) \<noteq> 0"
      using 1(2) by (simp add: byte_of_small_nat_nonzero)
    then show ?thesis
      using True eq by (simp add: nat_bytes.simps [of 0])
  next
    case False
    then have "hd (nat_bytes (n div 256)) \<noteq> 0"
      using 1 by simp
    moreover have "nat_bytes (n div 256) \<noteq> []"
      using False by (simp add: nat_bytes_Nil_iff)
    ultimately show ?thesis
      using eq by simp
  qed
qed

lemma hd_Bytes: "x \<noteq> 0 \<Longrightarrow> hd (Bytes x) \<noteq> 0"
  by (simp add: Bytes_def hd_nat_bytes)

lemma Bytes_minimal: "minimal_big_endian x (Bytes x)"
  using hd_Bytes [of x] by (auto simp add: minimal_big_endian_def Bytes_Nil_iff SetBytes_Bytes_abs)

lemma marshalBigIntSlice_minimal: "list_all2 minimal_big_endian xs (marshalBigIntSlice xs)"
  by (induction xs) (simp_all add: marshalBigIntSlice_def Bytes_minimal)

lemma unmarshal_marshalBigIntSlice:
  "list_all (\<lambda>x. 0 \<le> x) xs \<Longrightarrow> unmarshalBigIntSlice (marshalBigIntSlice xs) = xs"
  by (induction xs) (simp_all add: unmarshalBigIntSlice_def marshalBigIntSlice_def SetBytes_Bytes)

lemma PaillierPKs_roundtrip:
  "list_all (\<lambda>pk. 0 \<le> N pk) pks \<Longrightarrow>
   map ((\<lambda>paillierPK. \<lparr>N = SetBytes paillierPK\<rparr>) \<circ> (\<lambda>paillierPK. Bytes (N paillierPK))) pks = pks"
  by (induction pks) (simp_all add: SetBytes_Bytes)

section \<open>The loops over the curve points\<close>

lemma decode_encodeBigXj:
  "list_all (gob_lossless cd) ps \<Longrightarrow> encodeBigXj cd ps = Inr bs \<Longrightarrow> decodeBigXj cd bs = Inr ps"
proof (induction ps arbitrary: bs)
  case Nil
  then show ?case by simp
next
  case (Cons p ps)
  then show ?case
    by (auto simp add: gob_lossless_def split: sum.splits)
qed

lemma encodeBigXj_passes_through:
  "encodeBigXj cd ps = Inr bs \<Longrightarrow> list_all2 (\<lambda>p b. GobEncode cd p = Inr b) ps bs"
  by (induction ps arbitrary: bs) (auto split: sum.splits)

section \<open>The threshold through int32\<close>

text \<open>
  What \<open>int(int32(x))\<close> is for a 64-bit \<open>x\<close>: the low 32 bits, read as a signed
  number.
\<close>

lemma sint_int32_roundtrip:
  "sint (int_of_int32 (int32_of_int x)) = signed_take_bit 31 (sint x)"
proof -
  have "sint (scast (ucast x :: 32 word) :: 64 word) = sint (ucast x :: 32 word)"
    by (simp add: sint_up_scast is_up)
  also have "\<dots> = signed_take_bit 31 (uint x)"
    by (simp add: signed_ucast_eq)
  also have "\<dots> = signed_take_bit 31 (signed_take_bit 63 (uint x))"
    by simp
  also have "signed_take_bit 63 (uint x) = sint x"
    by (simp add: sint_uint)
  finally show ?thesis
    by (simp add: int_of_int32_def int32_of_int_def)
qed

lemma sint_int32_roundtrip_mod:
  "sint (int_of_int32 (int32_of_int x)) = (sint x + 2 ^ 31) mod 2 ^ 32 - 2 ^ 31"
  by (simp only: sint_int32_roundtrip signed_take_bit_eq_take_bit_shift take_bit_eq_mod) simp

lemma int32_roundtrip_iff:
  "int_of_int32 (int32_of_int x) = x \<longleftrightarrow> fits_int32 x"
proof -
  have "int_of_int32 (int32_of_int x) = x \<longleftrightarrow> sint (int_of_int32 (int32_of_int x)) = sint x"
    by (auto intro: signed_word_eqI)
  also have "\<dots> \<longleftrightarrow> signed_take_bit 31 (sint x) = sint x"
    by (simp only: sint_int32_roundtrip)
  also have "\<dots> \<longleftrightarrow> - (2 ^ 31) \<le> sint x \<and> sint x < 2 ^ 31"
    by (rule signed_take_bit_int_eq_self_iff)
  finally show ?thesis
    by (simp only: fits_int32_def)
qed

section \<open>Decoding an encoded key and signer\<close>

lemma fromSaveData_saveData:
  assumes "key_nonnegative tk" and "points_lossless cd tk" and "saveData cd tk = Inr pbData"
  shows "fromSaveData cd pbData = Inr tk"
proof -
  obtain bigXj ecdsaPub where
    enc: "encodeBigXj cd (BigXj tk) = Inr bigXj" and pub: "GobEncode cd (ECDSAPub tk) = Inr ecdsaPub"
    using assms(3) by (auto simp add: saveData_def Let_def split: sum.splits)
  have dec: "decodeBigXj cd bigXj = Inr (BigXj tk)"
    using assms(2) enc by (simp add: points_lossless_def decode_encodeBigXj)
  have dpub: "GobDecode cd ecdsaPub = Inr (ECDSAPub tk)"
    using assms(2) pub by (simp add: points_lossless_def gob_lossless_def)
  have pb: "pbData =
     \<lparr>pb_LocalPreParams =
        \<lparr>pb_PaillierSK =
           \<lparr>pb_PublicKey = Bytes (N (PublicKey (PaillierSK (LocalPreParams tk)))),
            pb_LambdaN = Bytes (LambdaN (PaillierSK (LocalPreParams tk))),
            pb_PhiN = Bytes (PhiN (PaillierSK (LocalPreParams tk)))\<rparr>,
         pb_NTilde = Bytes (NTildei (LocalPreParams tk)),
         pb_H1I = Bytes (H1i (LocalPreParams tk)),
         pb_H2I = Bytes (H2i (LocalPreParams tk))\<rparr>,
      pb_LocalSecrets =
        \<lparr>pb_Xi = Bytes (Xi (LocalSecrets tk)), pb_ShareID = Bytes (ShareID (LocalSecrets tk))\<rparr>,
      pb_Ks = marshalBigIntSlice (Ks tk),
      pb_NTildej = marshalBigIntSlice (NTildej tk),
      pb_H1J = marshalBigIntSlice (H1j tk),
      pb_H2J = marshalBigIntSlice (H2j tk),
      pb_BigXj = bigXj,
      pb_PaillierPKs = map (\<lambda>paillierPK. Bytes (N paillierPK)) (PaillierPKs tk),
      pb_EcdsaPub = ecdsaPub\<rparr>"
    using assms(3) enc pub by (simp add: saveData_def Let_def)
  show ?thesis
    using assms(1) dec dpub
    by (simp add: pb fromSaveData_def Let_def key_nonnegative_def SetBytes_Bytes
        unmarshal_marshalBigIntSlice PaillierPKs_roundtrip)
qed

lemma ThresholdKey_roundtrip:
  assumes "pb_lossless cd" and "key_nonnegative tk" and "points_lossless cd tk"
    and "ThresholdKey_Marshal cd tk = Inr bytes"
  shows "ThresholdKey_Unmarshal cd bytes = Inr tk"
proof -
  obtain pbData where
    sd: "saveData cd tk = Inr pbData" and m: "Marshal_LocalPartySaveData cd pbData = Inr bytes"
    using assms(4) by (auto simp add: ThresholdKey_Marshal_def split: sum.splits)
  have "Unmarshal_LocalPartySaveData cd bytes = Inr pbData"
    using assms(1) m by (simp add: pb_lossless_def)
  then show ?thesis
    using fromSaveData_saveData [OF assms(2) assms(3) sd]
    by (simp add: ThresholdKey_Unmarshal_def)
qed

text \<open>
  Every field of the signer comes back, the threshold as \<open>int(int32(t))\<close>.
\<close>

lemma ThresholdSigner_roundtrip:
  assumes "pb_lossless cd" and "key_nonnegative (thresholdKey s)"
    and "points_lossless cd (thresholdKey s)"
    and "ThresholdSigner_Marshal cd s = Inr bytes"
  shows "ThresholdSigner_Unmarshal cd bytes =
         Inr (s\<lparr>groupInfo := (groupInfo s)
                 \<lparr>dishonestThreshold :=
                    int_of_int32 (int32_of_int (dishonestThreshold (groupInfo s)))\<rparr>\<rparr>)"
proof -
  obtain keygenData where
    k: "ThresholdKey_Marshal cd (thresholdKey s) = Inr keygenData" and
    m: "Marshal_ThresholdSigner cd
          \<lparr>pb_GroupInfo =
             \<lparr>pb_GroupID = groupID (groupInfo s), pb_MemberID = memberID (groupInfo s),
              pb_GroupMemberIDs = groupMemberIDs (groupInfo s),
              pb_DishonestThreshold = int32_of_int (dishonestThreshold (groupInfo s))\<rparr>,
           pb_ThresholdKey = keygenData\<rparr> = Inr bytes"
    using assms(4) by (auto simp add: ThresholdSigner_Marshal_def Let_def split: sum.splits)
  have u: "Unmarshal_ThresholdSigner cd bytes =
        Inr \<lparr>pb_GroupInfo =
             \<lparr>pb_GroupID = groupID (groupInfo s), pb_MemberID = memberID (groupInfo s),
              pb_GroupMemberIDs = groupMemberIDs (groupInfo s),
              pb_DishonestThreshold = int32_of_int (dishonestThreshold (groupInfo s))\<rparr>,
           pb_ThresholdKey = keygenData\<rparr>"
    using assms(1) m by (simp add: pb_lossless_def)
  have t: "ThresholdKey_Unmarshal cd keygenData = Inr (thresholdKey s)"
    using ThresholdKey_roundtrip [OF assms(1) assms(2) assms(3) k] .
  show ?thesis
    by (simp add: ThresholdSigner_Unmarshal_def u t Let_def)
qed

section \<open>The reference codec is lossless\<close>

lemma get_put_len [simp]: "get_len (put_len n @ r) = Some (n, r)"
  by (induction n) (simp_all add: put_len_def)

lemma get_put_bytes [simp]: "get_bytes (put_bytes b @ r) = Some (b, r)"
  by (simp add: get_bytes_def put_bytes_def)

lemma get_put_items: "get_items (length xs) (concat (map put_bytes xs) @ r) = Some (xs, r)"
  by (induction xs) simp_all

lemma get_put_list [simp]: "get_list (put_list xs @ r) = Some (xs, r)"
  by (simp add: get_list_def put_list_def get_put_items)

lemma int32_of_four_bytes:
  "push_bit 24 (ucast (ucast (drop_bit 24 w :: 32 word) :: 8 word)) OR
   push_bit 16 (ucast (ucast (drop_bit 16 w :: 32 word) :: 8 word)) OR
   push_bit 8 (ucast (ucast (drop_bit 8 w :: 32 word) :: 8 word)) OR
   ucast (ucast w :: 8 word) = w"
proof (rule bit_word_eqI)
  fix n :: nat
  assume "n < LENGTH(32)"
  then consider "n < 8" | "8 \<le> n" "n < 16" | "16 \<le> n" "n < 24" | "24 \<le> n" "n < 32"
    by fastforce
  then show "bit (push_bit 24 (ucast (ucast (drop_bit 24 w :: 32 word) :: 8 word)) OR
      push_bit 16 (ucast (ucast (drop_bit 16 w :: 32 word) :: 8 word)) OR
      push_bit 8 (ucast (ucast (drop_bit 8 w :: 32 word) :: 8 word)) OR
      ucast (ucast w :: 8 word) :: 32 word) n = bit w n"
    by cases (auto simp add: bit_simps)
qed

lemma get_put_int32 [simp]: "get_int32 (put_int32 w @ r) = Some (w, r)"
  by (simp add: put_int32_def int32_of_four_bytes)

lemma char_of_byte: "char_of (unat (word_of_nat (of_char c) :: 8 word)) = c"
  by (simp add: unat_of_nat)

lemma get_put_string [simp]: "get_string (put_string s @ r) = Some (s, r)"
  by (simp add: get_string_def put_string_def comp_def char_of_byte)

lemma get_put_bool [simp]: "get_bool (put_bool f @ r) = Some (f, r)"
  by (simp add: put_bool_def)

lemma get_put_TSSProtocolMessage:
  "get_TSSProtocolMessage (put_TSSProtocolMessage m) = Some m"
  using get_put_bool [of "pb_IsBroadcast m" "[]"]
  by (simp add: get_TSSProtocolMessage_def put_TSSProtocolMessage_def)

lemma get_put_ThresholdSigner: "get_ThresholdSigner (put_ThresholdSigner m) = Some m"
  using get_put_bytes [of "pb_ThresholdKey m" "[]"]
  by (simp add: get_ThresholdSigner_def put_ThresholdSigner_def)

lemma get_put_LocalPartySaveData:
  "get_LocalPartySaveData (put_LocalPartySaveData m) = Some m"
  using get_put_bytes [of "pb_EcdsaPub m" "[]"]
  by (simp add: get_LocalPartySaveData_def put_LocalPartySaveData_def)

lemma get_put_point: "get_point (put_point p) = Some p"
  using get_put_bytes [of "Bytes (int (snd p))" "[]"]
  by (simp add: get_point_def put_point_def SetBytes_Bytes)

lemma wire_lossless: "pb_lossless wire"
  by (auto simp add: pb_lossless_def wire_def the_message_def get_put_TSSProtocolMessage
      get_put_ThresholdSigner get_put_LocalPartySaveData)

lemma wire_gob_lossless: "gob_lossless wire p"
  by (auto simp add: gob_lossless_def wire_def the_message_def get_put_point)

lemma wire_points_lossless: "points_lossless wire tk"
  by (simp add: points_lossless_def wire_gob_lossless list_all_iff)

lemma wire_encodeBigXj: "encodeBigXj wire ps = Inr (map put_point ps)"
  by (induction ps) (simp_all add: wire_def)

lemma wire_Marshal: "\<exists>bytes. ThresholdSigner_Marshal wire s = Inr bytes"
  by (simp add: ThresholdSigner_Marshal_def ThresholdKey_Marshal_def saveData_def Let_def
      wire_encodeBigXj) (simp add: wire_def)

lemma wire_decode_encode:
  "key_nonnegative (thresholdKey s) \<Longrightarrow>
   decode_encode wire s =
     Inr (s\<lparr>groupInfo := (groupInfo s)
             \<lparr>dishonestThreshold :=
                int_of_int32 (int32_of_int (dishonestThreshold (groupInfo s)))\<rparr>\<rparr>)"
  using wire_Marshal [of s]
  by (auto simp add: decode_encode_def
      ThresholdSigner_roundtrip [OF wire_lossless _ wire_points_lossless])

lemma key0_nonnegative: "key_nonnegative key0"
  by (simp add: key_nonnegative_def key0_def)

section \<open>Round trips of ThresholdSigner and TSSProtocolMessage\<close>

text \<open>
  Claim C1, as stated, fails. The signer \<open>signer_wide\<close> meets the invariant of the data
  model (its \<open>2^31 + 1\<close> members outnumber its threshold \<open>2^31\<close>), its key holds no
  negative number and its points survive the encoding; decoding its encoding gives a
  signer whose threshold is \<open>-2^31\<close>.
\<close>

theorem C1_counterexample:
  "valid_signer wire signer_wide \<and>
   decode_encode wire signer_wide = Inr signer_wide_decoded \<and>
   signer_wide_decoded \<noteq> signer_wide"
proof -
  have v: "valid_signer wire signer_wide"
    by (simp add: valid_signer_def group_valid_def signer_wide_def key0_nonnegative
        wire_points_lossless)
  have "int_of_int32 (int32_of_int (2 ^ 31)) = - (2 ^ 31)"
    by (simp add: int_of_int32_def int32_of_int_def)
  then have d: "decode_encode wire signer_wide = Inr signer_wide_decoded"
    by (simp add: wire_decode_encode signer_wide_def signer_wide_decoded_def key0_nonnegative)
  have n: "signer_wide_decoded \<noteq> signer_wide"
    by (simp add: signer_wide_def signer_wide_decoded_def)
  from v d n show ?thesis by blast
qed

text \<open>
  Claim C1, amended. For every signer whose big integers are not negative, whose curve
  points \<open>GobDecode\<close> reads back from \<open>GobEncode\<close>, and whose threshold fits in a
  signed 32-bit integer, decoding the encoding gives the signer back, field for field
  (a zero-valued secret share included), provided the generated protobuf code is lossless.
\<close>

theorem C1_roundtrip:
  assumes "pb_lossless cd" and "key_nonnegative (thresholdKey s)"
    and "points_lossless cd (thresholdKey s)"
    and "fits_int32 (dishonestThreshold (groupInfo s))"
    and "ThresholdSigner_Marshal cd s = Inr bytes"
  shows "ThresholdSigner_Unmarshal cd bytes = Inr s"
proof -
  have "int_of_int32 (int32_of_int (dishonestThreshold (groupInfo s))) =
        dishonestThreshold (groupInfo s)"
    using assms(4) by (simp add: int32_roundtrip_iff)
  then show ?thesis
    using ThresholdSigner_roundtrip [OF assms(1) assms(2) assms(3) assms(5)] by simp
qed

theorem C1_roundtrip_witness:
  "pb_lossless wire \<and> key_nonnegative (thresholdKey signer0) \<and>
   points_lossless wire (thresholdKey signer0) \<and>
   fits_int32 (dishonestThreshold (groupInfo signer0)) \<and>
   Xi (LocalSecrets (thresholdKey signer0)) = 0 \<and>
   ThresholdSigner_Marshal wire signer0 = Inr (projr (ThresholdSigner_Marshal wire signer0)) \<and>
   ThresholdSigner_Unmarshal wire (projr (ThresholdSigner_Marshal wire signer0)) = Inr signer0"
proof -
  have z: "Xi (LocalSecrets (thresholdKey signer0)) = 0"
    by (simp add: signer0_def key0_def)
  have k: "key_nonnegative (thresholdKey signer0)"
    by (simp add: signer0_def key0_nonnegative)
  have f: "fits_int32 (dishonestThreshold (groupInfo signer0))"
    by (simp add: signer0_def group0_def fits_int32_def)
  have m: "ThresholdSigner_Marshal wire signer0 = Inr (projr (ThresholdSigner_Marshal wire signer0))"
    using wire_Marshal [of signer0] by auto
  from z k f m wire_lossless wire_points_lossless [of "thresholdKey signer0"]
    C1_roundtrip [OF wire_lossless k wire_points_lossless f m]
  show ?thesis by blast
qed

text \<open>
  Claim C10. The threshold that \<open>Unmarshal\<close> returns for an encoded signer is
  \<open>int(int32(t))\<close>: the value \<open>t\<close> reduced modulo \<open>2^32\<close> into the signed 32-bit
  range. It is \<open>t\<close> again exactly when \<open>t\<close> fits in a signed 32-bit integer.
\<close>

theorem C10_threshold_narrowed:
  assumes "pb_lossless cd" and "ThresholdSigner_Marshal cd s = Inr bytes"
    and "ThresholdSigner_Unmarshal cd bytes = Inr s'"
  shows "dishonestThreshold (groupInfo s') =
           int_of_int32 (int32_of_int (dishonestThreshold (groupInfo s))) \<and>
         sint (dishonestThreshold (groupInfo s')) =
           (sint (dishonestThreshold (groupInfo s)) + 2 ^ 31) mod 2 ^ 32 - 2 ^ 31 \<and>
         (dishonestThreshold (groupInfo s') = dishonestThreshold (groupInfo s) \<longleftrightarrow>
            fits_int32 (dishonestThreshold (groupInfo s)))"
proof -
  obtain keygenData where
    m: "Marshal_ThresholdSigner cd
          \<lparr>pb_GroupInfo =
             \<lparr>pb_GroupID = groupID (groupInfo s), pb_MemberID = memberID (groupInfo s),
              pb_GroupMemberIDs = groupMemberIDs (groupInfo s),
              pb_DishonestThreshold = int32_of_int (dishonestThreshold (groupInfo s))\<rparr>,
           pb_ThresholdKey = keygenData\<rparr> = Inr bytes"
    using assms(2) by (auto simp add: ThresholdSigner_Marshal_def Let_def split: sum.splits)
  have u: "Unmarshal_ThresholdSigner cd bytes =
        Inr \<lparr>pb_GroupInfo =
             \<lparr>pb_GroupID = groupID (groupInfo s), pb_MemberID = memberID (groupInfo s),
              pb_GroupMemberIDs = groupMemberIDs (groupInfo s),
              pb_DishonestThreshold = int32_of_int (dishonestThreshold (groupInfo s))\<rparr>,
           pb_ThresholdKey = keygenData\<rparr>"
    using assms(1) m by (simp add: pb_lossless_def)
  have t: "dishonestThreshold (groupInfo s') =
           int_of_int32 (int32_of_int (dishonestThreshold (groupInfo s)))"
    using assms(3) by (auto simp add: ThresholdSigner_Unmarshal_def u Let_def split: sum.splits)
  show ?thesis
    by (simp only: t sint_int32_roundtrip_mod int32_roundtrip_iff)
qed

theorem C10_threshold_narrowed_witness:
  "pb_lossless wire \<and>
   ThresholdSigner_Marshal wire signer_wide = Inr (projr (ThresholdSigner_Marshal wire signer_wide)) \<and>
   ThresholdSigner_Unmarshal wire (projr (ThresholdSigner_Marshal wire signer_wide)) =
     Inr signer_wide_decoded \<and>
   dishonestThreshold (groupInfo signer_wide) = 2 ^ 31 \<and>
   dishonestThreshold (groupInfo signer_wide_decoded) = - (2 ^ 31) \<and>
   sint (dishonestThreshold (groupInfo signer_wide_decoded)) = - (2 ^ 31) \<and>
   \<not> fits_int32 (dishonestThreshold (groupInfo signer_wide))"
proof -
  have m: "ThresholdSigner_Marshal wire signer_wide =
           Inr (projr (ThresholdSigner_Marshal wire signer_wide))"
    using wire_Marshal [of signer_wide] by auto
  have "int_of_int32 (int32_of_int (2 ^ 31)) = - (2 ^ 31)"
    by (simp add: int_of_int32_def int32_of_int_def)
  then have "decode_encode wire signer_wide = Inr signer_wide_decoded"
    by (simp add: wire_decode_encode signer_wide_def signer_wide_decoded_def key0_nonnegative)
  then have u: "ThresholdSigner_Unmarshal wire (projr (ThresholdSigner_Marshal wire signer_wide)) =
     Inr signer_wide_decoded"
    using m by (simp add: decode_encode_def split: sum.splits)
  have a: "dishonestThreshold (groupInfo signer_wide) = 2 ^ 31"
    by (simp add: signer_wide_def)
  have b: "dishonestThreshold (groupInfo signer_wide_decoded) = - (2 ^ 31)"
    by (simp add: signer_wide_decoded_def)
  from C10_threshold_narrowed [OF wire_lossless m u] a b
  have "sint (dishonestThreshold (groupInfo signer_wide_decoded)) = - (2 ^ 31) \<and>
        \<not> fits_int32 (dishonestThreshold (groupInfo signer_wide))"
    by simp
  with m u a b wire_lossless show ?thesis by blast
qed

text \<open>
  Claim C9. Unmarshaling the bytes that \<open>Marshal\<close> produced for a message \<open>m\<close> sets
  the receiver to \<open>m\<close>: the same \<open>SenderID\<close>, \<open>Payload\<close> and \<open>IsBroadcast\<close>,
  provided the generated protobuf code is lossless.
\<close>

theorem C9_message_roundtrip:
  assumes "pb_lossless cd" and "TSSProtocolMessage_Marshal cd m = Inr bytes"
  shows "TSSProtocolMessage_Unmarshal cd receiver bytes = (None, m)"
proof -
  have "Marshal_TSSProtocolMessage cd
          \<lparr>pb_SenderID = SenderID m, pb_Payload = Payload m, pb_IsBroadcast = IsBroadcast m\<rparr> =
        Inr bytes"
    using assms(2) by (auto simp add: TSSProtocolMessage_Marshal_def split: sum.splits)
  then have "Unmarshal_TSSProtocolMessage cd bytes =
        Inr \<lparr>pb_SenderID = SenderID m, pb_Payload = Payload m, pb_IsBroadcast = IsBroadcast m\<rparr>"
    using assms(1) by (simp add: pb_lossless_def)
  then show ?thesis
    by (simp add: TSSProtocolMessage_Unmarshal_def)
qed

theorem C9_message_roundtrip_witness:
  "pb_lossless wire \<and>
   TSSProtocolMessage_Marshal wire message0 = Inr [1, 0, 1, 1, 1, 1, 0, 10, 20, 30, 1] \<and>
   TSSProtocolMessage_Unmarshal wire \<lparr>SenderID = [], Payload = [], IsBroadcast = False\<rparr>
     [1, 0, 1, 1, 1, 1, 0, 10, 20, 30, 1] = (None, message0)"
proof -
  have m: "TSSProtocolMessage_Marshal wire message0 = Inr [1, 0, 1, 1, 1, 1, 0, 10, 20, 30, 1]"
    by (simp add: TSSProtocolMessage_Marshal_def wire_def message0_def put_TSSProtocolMessage_def
        put_bytes_def put_len_def put_bool_def)
  from m wire_lossless C9_message_roundtrip [OF wire_lossless m] show ?thesis by blast
qed

section \<open>The bytes of a large integer\<close>

text \<open>
  Claim C6, as stated, fails: the zero-valued secret share of \<open>key0\<close> is encoded as the
  empty byte string, and so is the zero among its \<open>NTildej\<close>.
\<close>

theorem C6_counterexample:
  "Xi (LocalSecrets key0) = 0 \<and> NTildej key0 = [65537, 256, 0] \<and>
   (case saveData wire key0 of
      Inl err \<Rightarrow> None
    | Inr pbData \<Rightarrow> Some (pb_Xi (pb_LocalSecrets pbData), pb_NTildej pbData)) =
   Some ([], [[1, 0, 1], [1, 0], []])"
proof -
  have b: "Bytes 0 = []" "Bytes 65537 = [1, 0, 1]" "Bytes 256 = [1, 0]"
    by (simp_all add: Bytes_def nat_bytes.simps [of 65537] nat_bytes.simps [of 256]
        nat_bytes.simps [of "Suc 0"] nat_bytes.simps [of 0])
  show ?thesis
    by (simp add: saveData_def Let_def wire_encodeBigXj key0_def)
      (simp add: wire_def marshalBigIntSlice_def b)
qed

text \<open>
  Claim C6, amended. The encoder writes every large integer as the shortest big-endian
  form of its magnitude: the empty byte string for zero, no leading zero byte otherwise,
  read back by the decoder as the magnitude; and it passes every curve point on exactly as
  \<open>GobEncode\<close> returned it.
\<close>

theorem C6_minimal_encoding:
  assumes "saveData cd tk = Inr pbData"
  shows "minimal_big_endian (N (PublicKey (PaillierSK (LocalPreParams tk))))
           (pb_PublicKey (pb_PaillierSK (pb_LocalPreParams pbData))) \<and>
         minimal_big_endian (LambdaN (PaillierSK (LocalPreParams tk)))
           (pb_LambdaN (pb_PaillierSK (pb_LocalPreParams pbData))) \<and>
         minimal_big_endian (PhiN (PaillierSK (LocalPreParams tk)))
           (pb_PhiN (pb_PaillierSK (pb_LocalPreParams pbData))) \<and>
         minimal_big_endian (NTildei (LocalPreParams tk)) (pb_NTilde (pb_LocalPreParams pbData)) \<and>
         minimal_big_endian (H1i (LocalPreParams tk)) (pb_H1I (pb_LocalPreParams pbData)) \<and>
         minimal_big_endian (H2i (LocalPreParams tk)) (pb_H2I (pb_LocalPreParams pbData)) \<and>
         minimal_big_endian (Xi (LocalSecrets tk)) (pb_Xi (pb_LocalSecrets pbData)) \<and>
         minimal_big_endian (ShareID (LocalSecrets tk)) (pb_ShareID (pb_LocalSecrets pbData)) \<and>
         list_all2 minimal_big_endian (Ks tk) (pb_Ks pbData) \<and>
         list_all2 minimal_big_endian (NTildej tk) (pb_NTildej pbData) \<and>
         list_all2 minimal_big_endian (H1j tk) (pb_H1J pbData) \<and>
         list_all2 minimal_big_endian (H2j tk) (pb_H2J pbData) \<and>
         list_all2 (\<lambda>pk b. minimal_big_endian (N pk) b) (PaillierPKs tk) (pb_PaillierPKs pbData) \<and>
         list_all2 (\<lambda>p b. GobEncode cd p = Inr b) (BigXj tk) (pb_BigXj pbData) \<and>
         GobEncode cd (ECDSAPub tk) = Inr (pb_EcdsaPub pbData)"
proof -
  obtain bigXj ecdsaPub where
    enc: "encodeBigXj cd (BigXj tk) = Inr bigXj" and pub: "GobEncode cd (ECDSAPub tk) = Inr ecdsaPub"
    using assms by (auto simp add: saveData_def Let_def split: sum.splits)
  have pks: "list_all2 (\<lambda>pk b. minimal_big_endian (N pk) b) pks
               (map (\<lambda>paillierPK. Bytes (N paillierPK)) pks)" for pks :: "PublicKey list"
    by (induction pks) (simp_all add: Bytes_minimal)
  show ?thesis
    using assms enc pub encodeBigXj_passes_through [OF enc]
    by (auto simp add: saveData_def Let_def Bytes_minimal marshalBigIntSlice_minimal pks)
qed

theorem C6_minimal_encoding_witness:
  "saveData wire key0 = Inr (projr (saveData wire key0)) \<and>
   Xi (LocalSecrets key0) = 0 \<and>
   minimal_big_endian 0 (pb_Xi (pb_LocalSecrets (projr (saveData wire key0)))) \<and>
   pb_Xi (pb_LocalSecrets (projr (saveData wire key0))) = []"
proof -
  have s: "saveData wire key0 = Inr (projr (saveData wire key0))"
    by (simp add: saveData_def Let_def wire_encodeBigXj) (simp add: wire_def)
  have z: "Xi (LocalSecrets key0) = 0"
    by (simp add: key0_def)
  from C6_minimal_encoding [OF s] z
  have m: "minimal_big_endian 0 (pb_Xi (pb_LocalSecrets (projr (saveData wire key0))))"
    by simp
  then have "pb_Xi (pb_LocalSecrets (projr (saveData wire key0))) = []"
    by (simp add: minimal_big_endian_def)
  with s z m show ?thesis by blast
qed

end
